theory Spec2Isabelle
  imports Complex_Main
begin

section \<open>Data model of main.py\<close>

text \<open>
  The program is one Streamlit script. Everything it computes itself is: one pickle file
  per uploaded file name, the session dictionary of the chat, and the loop that renders
  it. The PDF loader, the vector store builder, pickle and the conversational chain are
  libraries; they are parameters of the model, each returning an error or a value.

  Python strings and bytes are both modelled as \<open>string\<close>; a character outside ASCII
  is written as its UTF-8 bytes.
\<close>

type_synonym bytes = string

text \<open>A chunk returned by \<open>PyPDFLoader.load_and_split\<close>.\<close>

record document =
  page_content :: string
  page :: nat

text \<open>
  Exceptions: the ones the script itself can raise on a dictionary, a list or a file,
  and \<open>Raised e\<close> for an exception \<open>e\<close> coming out of a library call. The script
  defines no exception class of its own and wraps none.
\<close>

datatype 'e exn = KeyError string | IndexError | FileNotFoundError string | Raised 'e

text \<open>The library calls that leave the process or parse the document, in call order.\<close>

datatype call = LoadAndSplit | FromDocuments | ChainCall

text \<open>
  The argument \<open>ConversationalRetrievalChain.from_llm\<close> receives: the settings of
  \<open>ChatOpenAI\<close> and the retriever over the vector store.
\<close>

record 'i chain =
  llm_temperature :: real
  llm_model_name :: string
  retriever :: 'i

text \<open>
  The libraries. \<open>from_documents\<close> (with \<open>OpenAIEmbeddings\<close>) and \<open>llm_chain\<close> go to a
  remote provider, so their outcome may depend on when they are called: they receive the
  number of library calls made before. \<open>from_documents\<close> is what the builder does on a
  list of chunks that is not empty; \<open>faiss_index_error\<close> is the \<open>IndexError\<close> it raises
  on the empty list. \<open>open_error\<close> gives the exception of \<open>open(path, "wb")\<close> for a
  path that cannot be created (a directory part that does not exist, a name too long).
  \<open>pickle_dump\<close> raises after having written a prefix of the file, which it returns
  with the error.
\<close>

record ('e, 'i) providers =
  load_and_split :: "bytes \<Rightarrow> 'e + document list"
  from_documents :: "nat \<Rightarrow> document list \<Rightarrow> 'e + 'i"
  faiss_index_error :: 'e
  open_error :: "string \<Rightarrow> 'e option"
  pickle_dump :: "'i \<Rightarrow> ('e \<times> bytes) + bytes"
  pickle_load :: "bytes \<Rightarrow> 'e + 'i"
  llm_chain :: "nat \<Rightarrow> 'i chain \<Rightarrow> string \<Rightarrow> (string \<times> string) list \<Rightarrow> 'e + string"

text \<open>
  What the script can change outside the session: the files of the working directory
  (the pickle cache), the files of the temporary directory under the names the system
  chose for them, the log of library calls, the module's global \<open>vectors\<close> and the
  environment variable \<open>OPENAI_API_KEY\<close>.
\<close>

record 'i world =
  files :: "string \<rightharpoonup> bytes"
  tmp_files :: "(nat \<times> bytes) list"
  calls :: "call list"
  vectors_global :: "'i option"
  environ_key :: "string option"

text \<open>\<open>st.session_state\<close>: a dictionary, so each key may be absent.\<close>

record session_state =
  history :: "(string \<times> string) list option"
  ready :: "bool option"
  reset_chat :: "bool option"
  generated :: "string list option"
  past :: "string list option"

text \<open>The widgets' values in one run of the script.\<close>

record run_input =
  user_api_key :: string
  uploaded_file :: "(string \<times> bytes) option"
  reset_button :: bool
  MODEL :: string
  TEMPERATURE :: real
  user_input :: string
  submit_button :: bool

text \<open>A call of \<open>message\<close>: \<open>is_user=True\<close> or the bot's.\<close>

datatype msg = User string | Bot string

section \<open>The index cache\<close>

text \<open>
  \<open>tempfile.NamedTemporaryFile(delete=False)\<close> creates a file under a name no file of
  the temporary directory has; \<open>os.remove\<close> deletes the file of that name.
\<close>

definition NamedTemporaryFile :: "(nat \<times> bytes) list \<Rightarrow> nat" where
  "NamedTemporaryFile tmp = Suc (fold max (map fst tmp) 0)"

definition os_remove :: "nat \<Rightarrow> (nat \<times> bytes) list \<Rightarrow> (nat \<times> bytes) list" where
  "os_remove n tmp = filter (\<lambda>f. fst f \<noteq> n) tmp"

text \<open>
  \<open>FAISS.from_documents(data, embeddings)\<close>, line 89. The library embeds the texts and
  sizes the index by the first vector, \<open>embeddings[0]\<close>: with no chunk there is no first
  vector and the call raises before an index exists.
\<close>

definition FAISS_from_documents ::
  "('e, 'i) providers \<Rightarrow> nat \<Rightarrow> document list \<Rightarrow> 'e + 'i" where
  "FAISS_from_documents P t data =
     (if data = [] then Inl (faiss_index_error P) else from_documents P t data)"

text \<open>
  \<open>storeDocEmbeds\<close>, lines 74 to 94. The loader reads the temporary file just written,
  that is \<open>file\<close>. \<open>os.remove\<close> is reached only when the loader and the builder have
  both returned. \<open>open(..., "wb")\<close> raises or creates the pickle file, before
  \<open>pickle.dump\<close> runs.
\<close>

definition storeDocEmbeds ::
  "('e, 'i) providers \<Rightarrow> bytes \<Rightarrow> string \<Rightarrow> 'i world \<Rightarrow> ('e exn + unit) \<times> 'i world" where
  "storeDocEmbeds P file filename w =
    (let tmp_file_path = NamedTemporaryFile (tmp_files w);
         w1 = w\<lparr>tmp_files := tmp_files w @ [(tmp_file_path, file)]\<rparr>;
         w2 = w1\<lparr>calls := calls w1 @ [LoadAndSplit]\<rparr>
     in case load_and_split P file of
          Inl e \<Rightarrow> (Inl (Raised e), w2)
        | Inr data \<Rightarrow>
            (let w3 = w2\<lparr>calls := calls w2 @ [FromDocuments]\<rparr>
             in case FAISS_from_documents P (length (calls w2)) data of
                  Inl e \<Rightarrow> (Inl (Raised e), w3)
                | Inr vectors \<Rightarrow>
                    (let w4 = w3\<lparr>tmp_files := os_remove tmp_file_path (tmp_files w3)\<rparr>
                     in case open_error P (filename @ ''.pkl'') of
                          Some e \<Rightarrow> (Inl (Raised e), w4)
                        | None \<Rightarrow>
                            (case pickle_dump P vectors of
                               Inl (e, written) \<Rightarrow>
                                 (Inl (Raised e),
                                  w4\<lparr>files := (files w4)(filename @ ''.pkl'' \<mapsto> written)\<rparr>)
                             | Inr blob \<Rightarrow>
                                 (Inr (),
                                  w4\<lparr>files := (files w4)(filename @ ''.pkl'' \<mapsto> blob)\<rparr>)))))"

text \<open>
  \<open>getDocEmbeds\<close>, lines 97 to 109: build only when the pickle file is absent, then
  always read the pickle file, also right after having built.
\<close>

definition getDocEmbeds ::
  "('e, 'i) providers \<Rightarrow> bytes \<Rightarrow> string \<Rightarrow> 'i world \<Rightarrow> ('e exn + 'i) \<times> 'i world" where
  "getDocEmbeds P file filename w =
    (case (if files w (filename @ ''.pkl'') = None
           then storeDocEmbeds P file filename w else (Inr (), w)) of
       (Inl e, w1) \<Rightarrow> (Inl e, w1)
     | (Inr u, w1) \<Rightarrow>
         (case files w1 (filename @ ''.pkl'') of
            None \<Rightarrow> (Inl (FileNotFoundError (filename @ ''.pkl'')), w1)
          | Some blob \<Rightarrow>
              (case pickle_load P blob of
                 Inl e \<Rightarrow> (Inl (Raised e), w1)
               | Inr vectors \<Rightarrow> (Inr vectors, w1\<lparr>vectors_global := Some vectors\<rparr>))))"

section \<open>The conversation\<close>

text \<open>
  \<open>conversational_chat\<close>, lines 112 to 124. The two \<open>print\<close> calls write the history to
  the standard output and change nothing else; they are left out.
\<close>

definition conversational_chat ::
  "('e, 'i) providers \<Rightarrow> 'i chain \<Rightarrow> string \<Rightarrow> session_state \<times> 'i world
     \<Rightarrow> ('e exn + string) \<times> session_state \<times> 'i world" where
  "conversational_chat P chain query sw =
    (case sw of (st, w) \<Rightarrow>
       (case history st of
          None \<Rightarrow> (Inl (KeyError ''history''), st, w)
        | Some h \<Rightarrow>
            (let w1 = w\<lparr>calls := calls w @ [ChainCall]\<rparr>
             in case llm_chain P (length (calls w)) chain query h of
                  Inl e \<Rightarrow> (Inl (Raised e), st, w1)
                | Inr answer \<Rightarrow>
                    (Inr answer, st\<lparr>history := Some (h @ [(query, answer)])\<rparr>, w1))))"

text \<open>The two fixed texts: \<open>"Hey ! "\<close> and the waving hand, the greeting and the hugging face.\<close>

definition hey :: string where
  "hey = ''Hey ! '' @ [CHR 0xF0, CHR 0x9F, CHR 0x91, CHR 0x8B]"

definition greeting :: "string \<Rightarrow> string" where
  "greeting name =
     ''Hello ! Ask me anything about '' @ name @ '' '' @ [CHR 0xF0, CHR 0x9F, CHR 0xA4, CHR 0x97]"

text \<open>Lines 130 and 131: the button only raises the flag.\<close>

definition main_settings :: "run_input \<Rightarrow> session_state \<Rightarrow> session_state" where
  "main_settings inp st = (if reset_button inp then st\<lparr>reset_chat := Some True\<rparr> else st)"

text \<open>Lines 140 to 149.\<close>

definition main_init_state :: "session_state \<Rightarrow> session_state" where
  "main_init_state st =
    (let st1 = (if history st = None then st\<lparr>history := Some []\<rparr> else st);
         st2 = (if ready st1 = None then st1\<lparr>ready := Some False\<rparr> else st1)
     in if reset_chat st2 = None then st2\<lparr>reset_chat := Some False\<rparr> else st2)"

text \<open>Lines 176 to 180: each of the two lists is created when its own key is absent.\<close>

definition main_greeting :: "string \<Rightarrow> session_state \<Rightarrow> session_state" where
  "main_greeting name st =
    (let st1 = (if generated st = None then st\<lparr>generated := Some [greeting name]\<rparr> else st)
     in if past st1 = None then st1\<lparr>past := Some [hey]\<rparr> else st1)"

text \<open>Lines 199 to 207.\<close>

definition main_reset :: "string \<Rightarrow> session_state \<Rightarrow> 'e exn + session_state" where
  "main_reset name st =
    (case reset_chat st of
       None \<Rightarrow> Inl (KeyError ''reset_chat'')
     | Some flag \<Rightarrow>
         if flag
         then Inr (st\<lparr>history := Some [], past := Some [hey],
                      generated := Some [greeting name], reset_chat := Some False\<rparr>)
         else Inr st)"

text \<open>Lines 210 to 217.\<close>

definition main_submit ::
  "('e, 'i) providers \<Rightarrow> 'i chain \<Rightarrow> run_input \<Rightarrow> session_state \<times> 'i world
     \<Rightarrow> ('e exn + unit) \<times> session_state \<times> 'i world" where
  "main_submit P chain inp sw =
    (if submit_button inp \<and> user_input inp \<noteq> []
     then case conversational_chat P chain (user_input inp) sw of
            (Inl e, st1, w1) \<Rightarrow> (Inl e, st1, w1)
          | (Inr output, st1, w1) \<Rightarrow>
              (case past st1 of
                 None \<Rightarrow> (Inl (KeyError ''past''), st1, w1)
               | Some p \<Rightarrow>
                   (let st2 = st1\<lparr>past := Some (p @ [user_input inp])\<rparr>
                    in case generated st2 of
                         None \<Rightarrow> (Inl (KeyError ''generated''), st2, w1)
                       | Some g \<Rightarrow> (Inr (), st2\<lparr>generated := Some (g @ [output])\<rparr>, w1)))
     else (Inr (), fst sw, snd sw))"

text \<open>
  Lines 225 to 232: the loop runs over the indices of \<open>generated\<close> and reads \<open>past\<close> at
  the same index, which raises when \<open>past\<close> is shorter. The messages shown before an
  exception stay on the page.
\<close>

fun render_loop :: "string list \<Rightarrow> string list \<Rightarrow> nat list \<Rightarrow> msg list \<times> 'e exn option" where
  "render_loop p g [] = ([], None)"
| "render_loop p g (i # ix) =
     (if i < length p
      then (case render_loop p g ix of (ms, e) \<Rightarrow> (User (p ! i) # Bot (g ! i) # ms, e))
      else ([], Some IndexError))"

definition main_render :: "session_state \<Rightarrow> msg list \<times> 'e exn option" where
  "main_render st =
    (case generated st of
       None \<Rightarrow> ([], Some (KeyError ''generated''))
     | Some g \<Rightarrow>
         if g = [] then ([], None)
         else (case past st of
                 None \<Rightarrow> ([], Some (KeyError ''past''))
               | Some p \<Rightarrow> render_loop p g [0..<length g]))"

text \<open>
  Lines 165 to 167: the chain is built from the model selected and the index; the
  temperature written there is the literal \<open>0.0\<close>.
\<close>

definition main_chain :: "run_input \<Rightarrow> 'i \<Rightarrow> 'i chain" where
  "main_chain inp vectors =
     \<lparr>llm_temperature = 0.0, llm_model_name = MODEL inp, retriever = vectors\<rparr>"

text \<open>
  The body of the \<open>try\<close>, lines 72 to 232, for an uploaded file \<open>name\<close> with content
  \<open>file\<close>. An exception ends it; line 236 shows it as the page's error. The result is the
  messages rendered, the error shown if any, the session and the world.
\<close>

definition main_try ::
  "('e, 'i) providers \<Rightarrow> run_input \<Rightarrow> string \<Rightarrow> bytes \<Rightarrow> session_state \<times> 'i world
     \<Rightarrow> (msg list \<times> 'e exn option) \<times> session_state \<times> 'i world" where
  "main_try P inp name file sw =
    (case sw of (st, w) \<Rightarrow>
       (let st1 = main_init_state (main_settings inp st)
        in case getDocEmbeds P file name w of
             (Inl e, w1) \<Rightarrow> (([], Some e), st1, w1)
           | (Inr vectors, w1) \<Rightarrow>
               (let chain = main_chain inp vectors;
                    st2 = st1\<lparr>ready := Some True\<rparr>
                in if ready st2 = Some True
                   then (case main_reset name (main_greeting name st2) of
                           Inl e \<Rightarrow> (([], Some e), main_greeting name st2, w1)
                         | Inr st4 \<Rightarrow>
                             (case main_submit P chain inp (st4, w1) of
                                (Inl e, st5, w2) \<Rightarrow> (([], Some e), st5, w2)
                              | (Inr u, st5, w2) \<Rightarrow> (main_render st5, st5, w2)))
                   else (([], None), st2, w1))))"

text \<open>\<open>main\<close>, lines 37 to 236: one run of the script.\<close>

definition main ::
  "('e, 'i) providers \<Rightarrow> run_input \<Rightarrow> session_state \<times> 'i world
     \<Rightarrow> (msg list \<times> 'e exn option) \<times> session_state \<times> 'i world" where
  "main P inp sw =
    (if user_api_key inp = [] then (([], None), fst sw, snd sw)
     else (let w0 = (snd sw)\<lparr>environ_key := Some (user_api_key inp)\<rparr>
           in case uploaded_file inp of
                None \<Rightarrow> (([], None), fst sw, w0)
              | Some (name, file) \<Rightarrow> main_try P inp name file (fst sw, w0)))"

section \<open>Properties stated about the program\<close>




















text \<open>
  The two display lists go together: both keys absent, or both present with as many
  user messages as bot messages.
\<close>

definition paired :: "session_state \<Rightarrow> bool" where
  "paired st =
     (case past st of
        None \<Rightarrow> generated st = None
      | Some p \<Rightarrow> (case generated st of None \<Rightarrow> False | Some g \<Rightarrow> length p = length g))"

text \<open>What the loop of lines 225 to 232 shows when every index is in range.\<close>

definition transcript :: "string list \<Rightarrow> string list \<Rightarrow> msg list" where
  "transcript p g = concat (map (\<lambda>i. [User (p ! i), Bot (g ! i)]) [0..<length g])"

section \<open>Concrete libraries, worlds and inputs\<close>

text \<open>
  A small instance of the libraries, on which the definitions evaluate: a document is
  accepted when it starts with \<open>%PDF\<close> and has one chunk per character after that; the
  index is the text of the chunks; a file name of more than 255 bytes cannot be opened;
  a pickle is the index behind the byte \<open>P\<close>; the chain fails on the question \<open>boom\<close>
  and echoes any other question.
\<close>

definition example_libs :: "(string, string) providers" where
  "example_libs =
     \<lparr>load_and_split =
        (\<lambda>b. if take 4 b = ''%PDF''
             then Inr (map (\<lambda>c. \<lparr>page_content = [c], page = 0\<rparr>) (drop 4 b))
             else Inl ''PdfReadError''),
      from_documents = (\<lambda>t ds. Inr (concat (map page_content ds))),
      faiss_index_error = ''IndexError'',
      open_error = (\<lambda>path. if length path > 255 then Some ''OSError'' else None),
      pickle_dump = (\<lambda>v. Inr (CHR ''P'' # v)),
      pickle_load =
        (\<lambda>b. case b of
               [] \<Rightarrow> Inl ''EOFError''
             | c # v \<Rightarrow> if c = CHR ''P'' then Inr v else Inl ''UnpicklingError''),
      llm_chain =
        (\<lambda>t c q h. if q = ''boom'' then Inl ''RateLimitError'' else Inr (''echo '' @ q))\<rparr>"

text \<open>The same libraries with a builder that raises on an empty list of chunks.\<close>

definition strict_libs :: "(string, string) providers" where
  "strict_libs =
     example_libs\<lparr>from_documents :=
       (\<lambda>t ds. if ds = [] then Inl ''IndexError'' else Inr (concat (map page_content ds)))\<rparr>"

text \<open>The same libraries with a chain that reports the temperature it was built with.\<close>

definition thermo_libs :: "(string, string) providers" where
  "thermo_libs =
     example_libs\<lparr>llm_chain :=
       (\<lambda>t c q h. Inr (if llm_temperature c = 0 then ''temperature 0''
                       else ''temperature above 0''))\<rparr>"

definition empty_world :: "string world" where
  "empty_world =
     \<lparr>files = Map.empty, tmp_files = [], calls = [], vectors_global = None,
      environ_key = None\<rparr>"

text \<open>The world after \<open>a.pdf\<close>, with the two chunks \<open>a\<close> and \<open>b\<close>, has been indexed once.\<close>

definition cached_world :: "string world" where
  "cached_world =
     \<lparr>files = [''a.pdf.pkl'' \<mapsto> ''Pab''], tmp_files = [],
      calls = [LoadAndSplit, FromDocuments], vectors_global = Some ''ab'',
      environ_key = None\<rparr>"

text \<open>A world whose pickle file for \<open>a.pdf\<close> does not deserialize.\<close>

definition corrupt_world :: "string world" where
  "corrupt_world =
     \<lparr>files = [''a.pdf.pkl'' \<mapsto> ''garbage''], tmp_files = [], calls = [],
      vectors_global = None, environ_key = None\<rparr>"

definition empty_session :: session_state where
  "empty_session =
     \<lparr>history = None, ready = None, reset_chat = None, generated = None, past = None\<rparr>"

text \<open>A session after one exchange.\<close>

definition chatting_session :: session_state where
  "chatting_session =
     \<lparr>history = Some [(''hi'', ''echo hi'')], ready = Some True, reset_chat = Some False,
      generated = Some [greeting ''a.pdf'', ''echo hi''], past = Some [hey, ''hi'']\<rparr>"

text \<open>A run with \<open>a.pdf\<close> uploaded, the slider left at its default and nothing clicked.\<close>

definition idle_input :: run_input where
  "idle_input =
     \<lparr>user_api_key = ''sk-1'', uploaded_file = Some (''a.pdf'', ''%PDFab''),
      reset_button = False, MODEL = ''gpt-3.5-turbo'', TEMPERATURE = 618 / 1000,
      user_input = [], submit_button = False\<rparr>"

text \<open>The same run with a question submitted, and with the reset button clicked.\<close>

definition ask_input :: "string \<Rightarrow> run_input" where
  "ask_input q = idle_input\<lparr>user_input := q, submit_button := True\<rparr>"

definition reset_input :: run_input where
  "reset_input = idle_input\<lparr>reset_button := True\<rparr>"

text \<open>The cached world once a run has exported the key.\<close>

definition keyed_world :: "string world" where
  "keyed_world = cached_world\<lparr>environ_key := Some ''sk-1''\<rparr>"





text \<open>The small instance with a builder whose call raises \<open>e\<close> on every list of chunks.\<close>

definition failing_builder_libs :: "string \<Rightarrow> (string, string) providers" where
  "failing_builder_libs e = example_libs\<lparr>from_documents := (\<lambda>t ds. Inl e)\<rparr>"

text \<open>A run with a PDF without text uploaded as \<open>a.pdf\<close>.\<close>

definition blank_input :: run_input where
  "blank_input = idle_input\<lparr>uploaded_file := Some (''a.pdf'', ''%PDF'')\<rparr>"

section \<open>Temporary files\<close>

lemma fold_max_ge_init: "(a::nat) \<le> fold max xs a"
  by (induction xs arbitrary: a) (auto intro: order_trans [OF max.cobounded2])

lemma fold_max_ge_mem: "x \<in> set xs \<Longrightarrow> (x::nat) \<le> fold max xs a"
proof (induction xs arbitrary: a)
  case Nil
  then show ?case by simp
next
  case (Cons y ys)
  show ?case
  proof (cases "x = y")
    case True
    have "y \<le> max y a" by simp
    also have "\<dots> \<le> fold max ys (max y a)" by (rule fold_max_ge_init)
    finally show ?thesis using True by simp
  next
    case False
    with Cons.prems have "x \<in> set ys" by simp
    then show ?thesis using Cons.IH by simp
  qed
qed

lemma NamedTemporaryFile_fresh: "f \<in> set tmp \<Longrightarrow> fst f \<noteq> NamedTemporaryFile tmp"
proof
  assume f: "f \<in> set tmp" and eq: "fst f = NamedTemporaryFile tmp"
  from f have "fst f \<in> set (map fst tmp)" by simp
  then have "fst f \<le> fold max (map fst tmp) 0" by (rule fold_max_ge_mem)
  with eq show False by (simp add: NamedTemporaryFile_def)
qed

lemma os_remove_fresh:
  "os_remove (NamedTemporaryFile tmp) (tmp @ [(NamedTemporaryFile tmp, file)]) = tmp"
proof -
  have "filter (\<lambda>f. fst f \<noteq> NamedTemporaryFile tmp) tmp = tmp"
    by (rule filter_True) (simp add: NamedTemporaryFile_fresh)
  then show ?thesis by (simp add: os_remove_def)
qed

section \<open>The index cache: what a call does\<close>

text \<open>
  A build that returns has called the loader and the builder once each, has removed its
  temporary file and has written the pickle of the index built.
\<close>

lemma storeDocEmbeds_Inr:
  assumes "storeDocEmbeds P file filename w = (Inr u, w')"
  shows "\<exists>data vectors blob.
           load_and_split P file = Inr data \<and>
           FAISS_from_documents P (Suc (length (calls w))) data = Inr vectors \<and>
           pickle_dump P vectors = Inr blob \<and>
           w' = w\<lparr>calls := calls w @ [LoadAndSplit, FromDocuments],
                  files := (files w)(filename @ ''.pkl'' \<mapsto> blob)\<rparr>"
  using assms
  by (auto simp: storeDocEmbeds_def Let_def os_remove_fresh
      split: sum.splits prod.splits option.splits)

lemma getDocEmbeds_cached:
  assumes "files w (filename @ ''.pkl'') = Some blob"
  shows "getDocEmbeds P file filename w =
           (case pickle_load P blob of
              Inl e \<Rightarrow> (Inl (Raised e), w)
            | Inr v \<Rightarrow> (Inr v, w\<lparr>vectors_global := Some v\<rparr>))"
  using assms by (simp add: getDocEmbeds_def)

lemma getDocEmbeds_Inr:
  assumes "getDocEmbeds P file filename w = (Inr v, w')"
  shows "\<exists>blob. files w' (filename @ ''.pkl'') = Some blob \<and> pickle_load P blob = Inr v \<and>
           vectors_global w' = Some v \<and>
           (case files w (filename @ ''.pkl'') of
              Some b \<Rightarrow> b = blob \<and> w' = w\<lparr>vectors_global := Some v\<rparr>
            | None \<Rightarrow>
                (\<exists>data built.
                   load_and_split P file = Inr data \<and>
                   FAISS_from_documents P (Suc (length (calls w))) data = Inr built \<and>
                   pickle_dump P built = Inr blob \<and>
                   w' = w\<lparr>calls := calls w @ [LoadAndSplit, FromDocuments],
                          files := (files w)(filename @ ''.pkl'' \<mapsto> blob),
                          vectors_global := Some v\<rparr>))"
proof (cases "files w (filename @ ''.pkl'')")
  case (Some b)
  with assms show ?thesis
    by (auto simp: getDocEmbeds_cached split: sum.splits)
next
  case None
  obtain r w1 where st: "storeDocEmbeds P file filename w = (r, w1)"
    by (cases "storeDocEmbeds P file filename w")
  with assms None obtain u where r: "r = Inr u"
    by (cases r) (auto simp: getDocEmbeds_def)
  from storeDocEmbeds_Inr [OF st [unfolded r]] obtain data built blob where
    d: "load_and_split P file = Inr data"
       "FAISS_from_documents P (Suc (length (calls w))) data = Inr built"
       "pickle_dump P built = Inr blob"
       "w1 = w\<lparr>calls := calls w @ [LoadAndSplit, FromDocuments],
               files := (files w)(filename @ ''.pkl'' \<mapsto> blob)\<rparr>"
    by blast
  from assms None st r d show ?thesis
    by (auto simp: getDocEmbeds_def split: sum.splits)
qed

text \<open>The two evaluations the examples on the cache share.\<close>

lemma getDocEmbeds_example_first:
  "getDocEmbeds example_libs ''%PDFab'' ''a.pdf'' empty_world = (Inr ''ab'', cached_world)"
  by (simp add: getDocEmbeds_def storeDocEmbeds_def example_libs_def empty_world_def
      cached_world_def NamedTemporaryFile_def os_remove_def FAISS_from_documents_def Let_def)

lemma getDocEmbeds_example_second:
  "getDocEmbeds example_libs ''%PDFab'' ''a.pdf'' cached_world = (Inr ''ab'', cached_world)"
  by (simp add: getDocEmbeds_def example_libs_def cached_world_def)

section \<open>Claims on the index cache\<close>

text \<open>
  Claim C1. When the pickle file of a file name exists at the call, \<open>getDocEmbeds\<close> does
  not run \<open>storeDocEmbeds\<close>: no library call is logged, no file is touched. Of two calls
  in a row for the same file name, the first of which returns an index, the second
  returns the same index and changes nothing, so the builder has run at most once over
  both.
\<close>

theorem getDocEmbeds_builds_at_most_once:
  assumes first: "getDocEmbeds P file filename w = (r1, w1)"
    and second: "getDocEmbeds P file filename w1 = (r2, w2)"
  shows "(files w (filename @ ''.pkl'') \<noteq> None \<longrightarrow>
            calls w1 = calls w \<and> files w1 = files w \<and> tmp_files w1 = tmp_files w) \<and>
         (\<forall>v. r1 = Inr v \<longrightarrow>
            r2 = Inr v \<and> w2 = w1 \<and>
            count_list (calls w2) FromDocuments \<le> Suc (count_list (calls w) FromDocuments))"
proof (intro conjI impI allI)
  assume "files w (filename @ ''.pkl'') \<noteq> None"
  then obtain blob where "files w (filename @ ''.pkl'') = Some blob" by blast
  from getDocEmbeds_cached [OF this, of P "file"] first
  show "calls w1 = calls w" "files w1 = files w" "tmp_files w1 = tmp_files w"
    by (auto split: sum.splits)
next
  fix v
  assume r1: "r1 = Inr v"
  from getDocEmbeds_Inr [OF first [unfolded r1]] obtain blob where
    b: "files w1 (filename @ ''.pkl'') = Some blob" "pickle_load P blob = Inr v"
       "vectors_global w1 = Some v"
    and how: "case files w (filename @ ''.pkl'') of
                Some b \<Rightarrow> b = blob \<and> w1 = w\<lparr>vectors_global := Some v\<rparr>
              | None \<Rightarrow>
                  (\<exists>data built.
                     load_and_split P file = Inr data \<and>
                     FAISS_from_documents P (Suc (length (calls w))) data = Inr built \<and>
                     pickle_dump P built = Inr blob \<and>
                     w1 = w\<lparr>calls := calls w @ [LoadAndSplit, FromDocuments],
                            files := (files w)(filename @ ''.pkl'' \<mapsto> blob),
                            vectors_global := Some v\<rparr>)"
    by blast
  have same: "w1\<lparr>vectors_global := Some v\<rparr> = w1" using b(3) by simp
  from getDocEmbeds_cached [OF b(1), of P "file"] b(2) second same
  show "r2 = Inr v" and w2: "w2 = w1" by simp_all
  from how have "count_list (calls w1) FromDocuments \<le> Suc (count_list (calls w) FromDocuments)"
    by (auto split: option.splits)
  with w2 show "count_list (calls w2) FromDocuments \<le> Suc (count_list (calls w) FromDocuments)"
    by simp
qed

theorem getDocEmbeds_builds_at_most_once_witness:
  "getDocEmbeds example_libs ''%PDFab'' ''a.pdf'' empty_world = (Inr ''ab'', cached_world) \<and>
   getDocEmbeds example_libs ''%PDFab'' ''a.pdf'' cached_world = (Inr ''ab'', cached_world) \<and>
   files cached_world (''a.pdf'' @ ''.pkl'') \<noteq> None \<and>
   count_list (calls cached_world) FromDocuments \<le> Suc (count_list (calls empty_world) FromDocuments) \<and>
   calls cached_world = calls cached_world"
proof -
  note h1 = getDocEmbeds_example_first
  note h2 = getDocEmbeds_example_second
  have present: "files cached_world (''a.pdf'' @ ''.pkl'') \<noteq> None"
    by (simp add: cached_world_def)
  from getDocEmbeds_builds_at_most_once [OF h1 h2]
  have a: "count_list (calls cached_world) FromDocuments
             \<le> Suc (count_list (calls empty_world) FromDocuments)"
    by simp
  from getDocEmbeds_builds_at_most_once [OF h2 h2] present
  have b: "calls cached_world = calls cached_world" by simp
  from h1 h2 present a b show ?thesis by simp
qed

section \<open>The persisted form reads back\<close>













text \<open>
  Claim C6, as the code has it. A pickle file that does not deserialize is never
  rebuilt: \<open>getDocEmbeds\<close> raises what \<open>pickle_load\<close> raised, calls neither the loader
  nor the builder and leaves every file as it was, so the next call fails the same way.
\<close>

theorem getDocEmbeds_corrupt_cache_raises:
  assumes "files w (filename @ ''.pkl'') = Some blob"
    and "pickle_load P blob = Inl e"
  shows "getDocEmbeds P file filename w = (Inl (Raised e), w)"
  using assms by (simp add: getDocEmbeds_cached)

theorem getDocEmbeds_corrupt_cache_raises_witness:
  "files corrupt_world (''a.pdf'' @ ''.pkl'') = Some ''garbage'' \<and>
   pickle_load example_libs ''garbage'' = Inl ''UnpicklingError'' \<and>
   getDocEmbeds example_libs ''%PDFab'' ''a.pdf'' corrupt_world
     = (Inl (Raised ''UnpicklingError''), corrupt_world)"
proof -
  have f: "files corrupt_world (''a.pdf'' @ ''.pkl'') = Some ''garbage''"
    by (simp add: corrupt_world_def)
  have l: "pickle_load example_libs ''garbage'' = Inl ''UnpicklingError''"
    by (simp add: example_libs_def)
  from getDocEmbeds_corrupt_cache_raises [OF f l] f l show ?thesis by simp
qed

text \<open>
  The claim as stated fails on a document whose rebuild would succeed: the error is
  raised, the builder is not called, and the run of the script shows the error with the
  corrupt file still in place.
\<close>

theorem getDocEmbeds_no_rebuild_counterexample:
  "getDocEmbeds example_libs ''%PDFab'' ''a.pdf'' corrupt_world
     = (Inl (Raised ''UnpicklingError''), corrupt_world) \<and>
   calls corrupt_world = [] \<and>
   fst (storeDocEmbeds example_libs ''%PDFab'' ''a.pdf'' corrupt_world) = Inr () \<and>
   fst (main example_libs idle_input (empty_session, corrupt_world))
     = ([], Some (Raised ''UnpicklingError'')) \<and>
   files (snd (snd (main example_libs idle_input (empty_session, corrupt_world))))
     ''a.pdf.pkl'' = Some ''garbage''"
  by (simp add: getDocEmbeds_def storeDocEmbeds_def example_libs_def corrupt_world_def
      main_def main_try_def idle_input_def empty_session_def FAISS_from_documents_def Let_def)

text \<open>
  Claim C7, as the code has it. \<open>storeDocEmbeds\<close> does not look at the number of chunks
  and has no error of its own for a document without any: the empty list goes to the
  builder, and the builder raises its \<open>IndexError\<close>. So a build from zero chunks fails
  with that exception, after the loader and the builder have been called, and writes no
  pickle file; \<open>getDocEmbeds\<close> raises the same and returns no index. The builder gives
  no index for an empty list at any time.
\<close>

theorem storeDocEmbeds_zero_segments_raises:
  assumes "load_and_split P file = Inr []"
  shows "storeDocEmbeds P file filename w
           = (Inl (Raised (faiss_index_error P)),
              w\<lparr>tmp_files := tmp_files w @ [(NamedTemporaryFile (tmp_files w), file)],
                calls := calls w @ [LoadAndSplit, FromDocuments]\<rparr>) \<and>
         (files w (filename @ ''.pkl'') = None \<longrightarrow>
            fst (getDocEmbeds P file filename w) = Inl (Raised (faiss_index_error P)) \<and>
            files (snd (getDocEmbeds P file filename w)) = files w \<and>
            vectors_global (snd (getDocEmbeds P file filename w)) = vectors_global w) \<and>
         (\<forall>t v. FAISS_from_documents P t [] \<noteq> Inr v)"
  using assms
  by (simp add: getDocEmbeds_def storeDocEmbeds_def FAISS_from_documents_def Let_def)

theorem storeDocEmbeds_zero_segments_raises_witness:
  "load_and_split example_libs ''%PDF'' = Inr [] \<and>
   files empty_world (''a.pdf'' @ ''.pkl'') = None \<and>
   storeDocEmbeds example_libs ''%PDF'' ''a.pdf'' empty_world
     = (Inl (Raised ''IndexError''),
        empty_world\<lparr>tmp_files := [(1, ''%PDF'')], calls := [LoadAndSplit, FromDocuments]\<rparr>) \<and>
   fst (getDocEmbeds example_libs ''%PDF'' ''a.pdf'' empty_world) = Inl (Raised ''IndexError'') \<and>
   files (snd (getDocEmbeds example_libs ''%PDF'' ''a.pdf'' empty_world)) = files empty_world"
proof -
  have l: "load_and_split example_libs ''%PDF'' = Inr []"
    by (simp add: example_libs_def)
  have f: "files empty_world (''a.pdf'' @ ''.pkl'') = None"
    by (simp add: empty_world_def)
  have e: "faiss_index_error example_libs = ''IndexError''"
    by (simp add: example_libs_def)
  have n: "tmp_files empty_world @ [(NamedTemporaryFile (tmp_files empty_world), ''%PDF'')]
             = [(1, ''%PDF'')]"
          "calls empty_world @ [LoadAndSplit, FromDocuments] = [LoadAndSplit, FromDocuments]"
    by (simp_all add: empty_world_def NamedTemporaryFile_def)
  from storeDocEmbeds_zero_segments_raises [OF l, of "''a.pdf''" empty_world] f e n
  have "storeDocEmbeds example_libs ''%PDF'' ''a.pdf'' empty_world
     = (Inl (Raised ''IndexError''),
        empty_world\<lparr>tmp_files := [(1, ''%PDF'')], calls := [LoadAndSplit, FromDocuments]\<rparr>) \<and>
   fst (getDocEmbeds example_libs ''%PDF'' ''a.pdf'' empty_world) = Inl (Raised ''IndexError'') \<and>
   files (snd (getDocEmbeds example_libs ''%PDF'' ''a.pdf'' empty_world)) = files empty_world"
    by simp
  with l f show ?thesis by simp
qed

text \<open>
  The claim as stated fails in the error it names: for a PDF without text the run shows
  the builder's own \<open>IndexError\<close>, the very page a builder raising that exception on a
  document with chunks gives, and nothing in it says that the document was empty.
\<close>

theorem storeDocEmbeds_no_empty_document_error_counterexample:
  "load_and_split example_libs ''%PDF'' = Inr [] \<and>
   faiss_index_error example_libs = ''IndexError'' \<and>
   fst (storeDocEmbeds example_libs ''%PDF'' ''a.pdf'' empty_world)
     = Inl (Raised ''IndexError'') \<and>
   fst (main example_libs blank_input (empty_session, empty_world))
     = ([], Some (Raised ''IndexError'')) \<and>
   fst (main (failing_builder_libs ''IndexError'') idle_input (empty_session, empty_world))
     = ([], Some (Raised ''IndexError''))"
  by (simp add: getDocEmbeds_def storeDocEmbeds_def example_libs_def empty_world_def
      failing_builder_libs_def main_def main_try_def idle_input_def blank_input_def
      empty_session_def FAISS_from_documents_def Let_def)

text \<open>
  A build that returns has removed its temporary file and changed the files of the
  working directory at the pickle file only.
\<close>

lemma storeDocEmbeds_success_frame:
  assumes "storeDocEmbeds P file filename w = (Inr u, w')"
  shows "tmp_files w' = tmp_files w \<and>
         (\<forall>path. path \<noteq> filename @ ''.pkl'' \<longrightarrow> files w' path = files w path)"
  using storeDocEmbeds_Inr [OF assms] by auto

text \<open>
  A build that ends in an exception of the loader or of the builder has not reached
  \<open>os.remove\<close>: the temporary file stays.
\<close>

lemma storeDocEmbeds_error_keeps_temp_file:
  assumes "load_and_split P file = Inl e \<or>
           (\<exists>data. load_and_split P file = Inr data \<and>
                   FAISS_from_documents P (Suc (length (calls w))) data = Inl e)"
  shows "storeDocEmbeds P file filename w =
           (Inl (Raised e),
            w\<lparr>tmp_files := tmp_files w @ [(NamedTemporaryFile (tmp_files w), file)],
              calls := calls w @ (if load_and_split P file = Inl e then [LoadAndSplit]
                                  else [LoadAndSplit, FromDocuments])\<rparr>)"
  using assms by (auto simp: storeDocEmbeds_def Let_def)

text \<open>
  Claim C9. The temporary file is removed on the path that returns only. At a file that
  is not a PDF, and at a PDF without text when the builder raises on the empty list,
  \<open>storeDocEmbeds\<close> raises and the temporary directory, empty before, holds the copy
  of the upload afterwards.
\<close>

theorem storeDocEmbeds_leaks_temp_file_on_error:
  "storeDocEmbeds example_libs ''not a pdf'' ''a.pdf'' empty_world
     = (Inl (Raised ''PdfReadError''),
        \<lparr>files = Map.empty, tmp_files = [(1, ''not a pdf'')], calls = [LoadAndSplit],
         vectors_global = None, environ_key = None\<rparr>) \<and>
   storeDocEmbeds strict_libs ''%PDF'' ''a.pdf'' empty_world
     = (Inl (Raised ''IndexError''),
        \<lparr>files = Map.empty, tmp_files = [(1, ''%PDF'')],
         calls = [LoadAndSplit, FromDocuments], vectors_global = None,
         environ_key = None\<rparr>) \<and>
   tmp_files empty_world = []"
  by (simp add: storeDocEmbeds_def example_libs_def strict_libs_def empty_world_def
      NamedTemporaryFile_def FAISS_from_documents_def Let_def)

section \<open>Claims on the conversation\<close>

text \<open>
  Claim C3. When the chain returns an answer, \<open>conversational_chat\<close> returns that
  answer and the history is the old history followed by the one pair of the question
  and the answer: every earlier turn is where it was and the length has grown by one.
\<close>

theorem conversational_chat_appends_one_turn:
  assumes "history st = Some h"
    and "llm_chain P (length (calls w)) chain query h = Inr answer"
  shows "conversational_chat P chain query (st, w)
           = (Inr answer, st\<lparr>history := Some (h @ [(query, answer)])\<rparr>,
              w\<lparr>calls := calls w @ [ChainCall]\<rparr>) \<and>
         length (h @ [(query, answer)]) = Suc (length h) \<and>
         take (length h) (h @ [(query, answer)]) = h \<and>
         last (h @ [(query, answer)]) = (query, answer)"
  using assms by (simp add: conversational_chat_def Let_def)

theorem conversational_chat_appends_one_turn_witness:
  "history chatting_session = Some [(''hi'', ''echo hi'')] \<and>
   llm_chain example_libs (length (calls cached_world)) (main_chain idle_input ''ab'') ''why''
     [(''hi'', ''echo hi'')] = Inr ''echo why'' \<and>
   conversational_chat example_libs (main_chain idle_input ''ab'') ''why''
     (chatting_session, cached_world)
     = (Inr ''echo why'',
        chatting_session\<lparr>history := Some [(''hi'', ''echo hi''), (''why'', ''echo why'')]\<rparr>,
        cached_world\<lparr>calls := [LoadAndSplit, FromDocuments, ChainCall]\<rparr>)"
proof -
  have h: "history chatting_session = Some [(''hi'', ''echo hi'')]"
    by (simp add: chatting_session_def)
  have a: "llm_chain example_libs (length (calls cached_world)) (main_chain idle_input ''ab'')
             ''why'' [(''hi'', ''echo hi'')] = Inr ''echo why''"
    by (simp add: example_libs_def)
  have c: "calls cached_world = [LoadAndSplit, FromDocuments]"
    by (simp add: cached_world_def)
  from conversational_chat_appends_one_turn [OF h a] h a c show ?thesis by simp
qed

text \<open>
  Claim C4, as the code has it. When the chain raises, \<open>conversational_chat\<close> raises
  that same exception as it is, wrapped in no error of the script's own, and the
  session is the one it was called with. In a run of the script on a session already
  chatting, the exception is shown as the page's error, no message is rendered and the
  session keeps its history and its two display lists: no turn, and no half of a turn,
  is added.
\<close>

theorem failed_ask_keeps_session:
  fixes P :: "('e, 'i) providers"
  assumes "history st = Some h"
    and "llm_chain P (length (calls w)) chain query h = Inl e"
  shows "conversational_chat P chain query (st, w)
           = (Inl (Raised e), st, w\<lparr>calls := calls w @ [ChainCall]\<rparr>) \<and>
         (user_api_key inp \<noteq> [] \<and> uploaded_file inp = Some (name, file) \<and>
          \<not> reset_button inp \<and> submit_button inp \<and> user_input inp = query \<and> query \<noteq> [] \<and>
          ready st \<noteq> None \<and> reset_chat st = Some False \<and>
          generated st \<noteq> None \<and> past st \<noteq> None \<and> chain = main_chain inp v \<and>
          getDocEmbeds P file name (w0\<lparr>environ_key := Some (user_api_key inp)\<rparr>) = (Inr v, w)
          \<longrightarrow> main P inp (st, w0)
                = (([], Some (Raised e)), st\<lparr>ready := Some True\<rparr>,
                   w\<lparr>calls := calls w @ [ChainCall]\<rparr>))"
proof
  show chat: "conversational_chat P chain query (st, w)
           = (Inl (Raised e), st, w\<lparr>calls := calls w @ [ChainCall]\<rparr>)"
    using assms by (simp add: conversational_chat_def Let_def)
  show "user_api_key inp \<noteq> [] \<and> uploaded_file inp = Some (name, file) \<and>
          \<not> reset_button inp \<and> submit_button inp \<and> user_input inp = query \<and> query \<noteq> [] \<and>
          ready st \<noteq> None \<and> reset_chat st = Some False \<and>
          generated st \<noteq> None \<and> past st \<noteq> None \<and> chain = main_chain inp v \<and>
          getDocEmbeds P file name (w0\<lparr>environ_key := Some (user_api_key inp)\<rparr>) = (Inr v, w)
          \<longrightarrow> main P inp (st, w0)
                = (([], Some (Raised e)), st\<lparr>ready := Some True\<rparr>,
                   w\<lparr>calls := calls w @ [ChainCall]\<rparr>)"
  proof
    assume a: "user_api_key inp \<noteq> [] \<and> uploaded_file inp = Some (name, file) \<and>
          \<not> reset_button inp \<and> submit_button inp \<and> user_input inp = query \<and> query \<noteq> [] \<and>
          ready st \<noteq> None \<and> reset_chat st = Some False \<and>
          generated st \<noteq> None \<and> past st \<noteq> None \<and> chain = main_chain inp v \<and>
          getDocEmbeds P file name (w0\<lparr>environ_key := Some (user_api_key inp)\<rparr>) = (Inr v, w)"
    have pre: "main_init_state (main_settings inp st) = st"
      using a assms(1) by (auto simp: main_init_state_def main_settings_def)
    have gr: "main_greeting name (st\<lparr>ready := Some True\<rparr>) = st\<lparr>ready := Some True\<rparr>"
      using a by (auto simp: main_greeting_def)
    have rs: "main_reset name (st\<lparr>ready := Some True\<rparr>)
                = (Inr (st\<lparr>ready := Some True\<rparr>) :: 'e exn + session_state)"
      using a by (simp add: main_reset_def)
    have chat': "conversational_chat P (main_chain inp v) query (st\<lparr>ready := Some True\<rparr>, w)
           = (Inl (Raised e), st\<lparr>ready := Some True\<rparr>, w\<lparr>calls := calls w @ [ChainCall]\<rparr>)"
      using a assms by (simp add: conversational_chat_def Let_def)
    have sub: "main_submit P (main_chain inp v) inp (st\<lparr>ready := Some True\<rparr>, w)
           = (Inl (Raised e), st\<lparr>ready := Some True\<rparr>, w\<lparr>calls := calls w @ [ChainCall]\<rparr>)"
      using a chat' by (simp add: main_submit_def)
    show "main P inp (st, w0)
                = (([], Some (Raised e)), st\<lparr>ready := Some True\<rparr>,
                   w\<lparr>calls := calls w @ [ChainCall]\<rparr>)"
      using a pre gr rs sub by (simp add: main_def main_try_def Let_def)
  qed
qed

theorem failed_ask_keeps_session_witness:
  "history chatting_session = Some [(''hi'', ''echo hi'')] \<and>
   llm_chain example_libs (length (calls keyed_world)) (main_chain (ask_input ''boom'') ''ab'')
     ''boom'' [(''hi'', ''echo hi'')] = Inl ''RateLimitError'' \<and>
   getDocEmbeds example_libs ''%PDFab'' ''a.pdf''
     (cached_world\<lparr>environ_key := Some (user_api_key (ask_input ''boom''))\<rparr>)
     = (Inr ''ab'', keyed_world) \<and>
   conversational_chat example_libs (main_chain (ask_input ''boom'') ''ab'') ''boom''
     (chatting_session, keyed_world)
     = (Inl (Raised ''RateLimitError''), chatting_session,
        keyed_world\<lparr>calls := calls keyed_world @ [ChainCall]\<rparr>) \<and>
   main example_libs (ask_input ''boom'') (chatting_session, cached_world)
     = (([], Some (Raised ''RateLimitError'')), chatting_session\<lparr>ready := Some True\<rparr>,
        keyed_world\<lparr>calls := calls keyed_world @ [ChainCall]\<rparr>)"
proof -
  have h: "history chatting_session = Some [(''hi'', ''echo hi'')]"
    by (simp add: chatting_session_def)
  have f: "llm_chain example_libs (length (calls keyed_world))
             (main_chain (ask_input ''boom'') ''ab'') ''boom'' [(''hi'', ''echo hi'')]
             = Inl ''RateLimitError''"
    by (simp add: example_libs_def)
  have g: "getDocEmbeds example_libs ''%PDFab'' ''a.pdf''
             (cached_world\<lparr>environ_key := Some (user_api_key (ask_input ''boom''))\<rparr>)
             = (Inr ''ab'', keyed_world)"
    by (simp add: getDocEmbeds_def example_libs_def cached_world_def keyed_world_def
        ask_input_def idle_input_def)
  have side: "user_api_key (ask_input ''boom'') \<noteq> [] \<and>
      uploaded_file (ask_input ''boom'') = Some (''a.pdf'', ''%PDFab'') \<and>
      \<not> reset_button (ask_input ''boom'') \<and> submit_button (ask_input ''boom'') \<and>
      user_input (ask_input ''boom'') = ''boom'' \<and> ''boom'' \<noteq> [] \<and>
      ready chatting_session \<noteq> None \<and> reset_chat chatting_session = Some False \<and>
      generated chatting_session \<noteq> None \<and> past chatting_session \<noteq> None"
    by (simp add: ask_input_def idle_input_def chatting_session_def)
  from failed_ask_keeps_session [OF h f, of "ask_input ''boom''" "''a.pdf''" "''%PDFab''"
      "''ab''" cached_world] g side
  have "conversational_chat example_libs (main_chain (ask_input ''boom'') ''ab'') ''boom''
     (chatting_session, keyed_world)
     = (Inl (Raised ''RateLimitError''), chatting_session,
        keyed_world\<lparr>calls := calls keyed_world @ [ChainCall]\<rparr>) \<and>
   main example_libs (ask_input ''boom'') (chatting_session, cached_world)
     = (([], Some (Raised ''RateLimitError'')), chatting_session\<lparr>ready := Some True\<rparr>,
        keyed_world\<lparr>calls := calls keyed_world @ [ChainCall]\<rparr>)"
    by simp
  with h f g show ?thesis by simp
qed

text \<open>
  The claim as stated fails in the error it names: what a failed ask raises and the page
  shows is the provider's exception itself, the very page a failed build of the index
  gives when the embedding provider raises that exception, and nothing in it says that
  the generation failed.
\<close>

theorem failed_ask_unwrapped_counterexample:
  "fst (conversational_chat example_libs (main_chain (ask_input ''boom'') ''ab'') ''boom''
          (chatting_session, keyed_world))
     = Inl (Raised ''RateLimitError'') \<and>
   fst (main example_libs (ask_input ''boom'') (chatting_session, cached_world))
     = ([], Some (Raised ''RateLimitError'')) \<and>
   fst (main (failing_builder_libs ''RateLimitError'') idle_input (empty_session, empty_world))
     = ([], Some (Raised ''RateLimitError''))"
  by (simp add: conversational_chat_def getDocEmbeds_def storeDocEmbeds_def example_libs_def
      failing_builder_libs_def main_def main_try_def main_settings_def main_init_state_def
      main_greeting_def main_reset_def main_submit_def main_chain_def
      ask_input_def idle_input_def chatting_session_def empty_session_def
      cached_world_def keyed_world_def empty_world_def FAISS_from_documents_def Let_def)

text \<open>
  Claim C5. In a run where the reset is pending (the button was clicked, or the flag
  is still raised), the index is obtained and no question is submitted, whatever the
  session held before: the history is the empty list, each display list holds its one
  greeting text, the flag is lowered, and the page shows exactly the greeting turn. The
  four assignments are one update of the session in the model, as no statement between
  them can raise.
\<close>

theorem reset_leaves_single_greeting:
  fixes P :: "('e, 'i) providers"
  assumes key: "user_api_key inp \<noteq> []"
    and up: "uploaded_file inp = Some (name, file)"
    and pending: "reset_button inp \<or> reset_chat st = Some True"
    and quiet: "\<not> (submit_button inp \<and> user_input inp \<noteq> [])"
    and idx: "getDocEmbeds P file name (w\<lparr>environ_key := Some (user_api_key inp)\<rparr>) = (Inr v, w1)"
  shows "\<exists>st'. main P inp (st, w) = (([User hey, Bot (greeting name)], None), st', w1) \<and>
           history st' = Some [] \<and> past st' = Some [hey] \<and>
           generated st' = Some [greeting name] \<and> reset_chat st' = Some False"
proof -
  define st2 where "st2 = (main_init_state (main_settings inp st))\<lparr>ready := Some True\<rparr>"
  define st4 where "st4 = (main_greeting name st2)\<lparr>history := Some [], past := Some [hey],
                      generated := Some [greeting name], reset_chat := Some False\<rparr>"
  have flag: "reset_chat (main_greeting name st2) = Some True"
    using pending
    by (auto simp: st2_def main_greeting_def main_init_state_def main_settings_def Let_def)
  have rs: "main_reset name (main_greeting name st2) = (Inr st4 :: 'e exn + session_state)"
    using flag by (simp add: main_reset_def st4_def)
  have sub: "main_submit P (main_chain inp v) inp (st4, w1) = (Inr (), st4, w1)"
    using quiet by (auto simp: main_submit_def)
  have rd: "main_render st4 = ([User hey, Bot (greeting name)], None :: 'e exn option)"
    by (simp add: main_render_def st4_def)
  have rdy: "ready st2 = Some True" by (simp add: st2_def)
  have "main P inp (st, w) = (([User hey, Bot (greeting name)], None), st4, w1)"
    using key up idx rs sub rd rdy
    by (simp add: main_def main_try_def Let_def st2_def [symmetric])
  moreover have "history st4 = Some [] \<and> past st4 = Some [hey] \<and>
           generated st4 = Some [greeting name] \<and> reset_chat st4 = Some False"
    by (simp add: st4_def)
  ultimately show ?thesis by blast
qed

theorem reset_leaves_single_greeting_witness:
  "user_api_key reset_input \<noteq> [] \<and>
   uploaded_file reset_input = Some (''a.pdf'', ''%PDFab'') \<and>
   (reset_button reset_input \<or> reset_chat chatting_session = Some True) \<and>
   \<not> (submit_button reset_input \<and> user_input reset_input \<noteq> []) \<and>
   getDocEmbeds example_libs ''%PDFab'' ''a.pdf''
     (cached_world\<lparr>environ_key := Some (user_api_key reset_input)\<rparr>) = (Inr ''ab'', keyed_world) \<and>
   (\<exists>st'. main example_libs reset_input (chatting_session, cached_world)
            = (([User hey, Bot (greeting ''a.pdf'')], None), st', keyed_world) \<and>
          history st' = Some [] \<and> past st' = Some [hey] \<and>
          generated st' = Some [greeting ''a.pdf''] \<and> reset_chat st' = Some False)"
proof -
  have key: "user_api_key reset_input \<noteq> []"
    by (simp add: reset_input_def idle_input_def)
  have up: "uploaded_file reset_input = Some (''a.pdf'', ''%PDFab'')"
    by (simp add: reset_input_def idle_input_def)
  have pending: "reset_button reset_input \<or> reset_chat chatting_session = Some True"
    by (simp add: reset_input_def)
  have quiet: "\<not> (submit_button reset_input \<and> user_input reset_input \<noteq> [])"
    by (simp add: reset_input_def idle_input_def)
  have idx: "getDocEmbeds example_libs ''%PDFab'' ''a.pdf''
     (cached_world\<lparr>environ_key := Some (user_api_key reset_input)\<rparr>) = (Inr ''ab'', keyed_world)"
    by (simp add: getDocEmbeds_def example_libs_def cached_world_def keyed_world_def
        reset_input_def idle_input_def)
  from reset_leaves_single_greeting [OF key up pending quiet idx] key up pending quiet idx
  show ?thesis by blast
qed

text \<open>
  Claim C8. The chain is built with the temperature \<open>0.0\<close> whatever the slider says.
  With the slider at its default \<open>0.618\<close>, a chain that reports the temperature it was
  given answers \<open>temperature 0\<close>.
\<close>

theorem main_chain_ignores_temperature_slider:
  "llm_temperature (main_chain inp vectors) = 0 \<and>
   TEMPERATURE (ask_input ''why'') = 618 / 1000 \<and>
   llm_temperature (main_chain (ask_input ''why'') ''ab'') \<noteq> TEMPERATURE (ask_input ''why'') \<and>
   fst (main thermo_libs (ask_input ''why'') (chatting_session, cached_world))
     = ([User hey, Bot (greeting ''a.pdf''), User ''hi'', Bot ''echo hi'',
         User ''why'', Bot ''temperature 0''], None)"
proof (intro conjI)
  show "llm_temperature (main_chain inp vectors) = 0"
    by (simp add: main_chain_def)
  show "TEMPERATURE (ask_input ''why'') = 618 / 1000"
    by (simp add: ask_input_def idle_input_def)
  show "llm_temperature (main_chain (ask_input ''why'') ''ab'') \<noteq> TEMPERATURE (ask_input ''why'')"
    by (simp add: main_chain_def ask_input_def idle_input_def)
  have g: "getDocEmbeds thermo_libs ''%PDFab'' ''a.pdf''
             (cached_world\<lparr>environ_key := Some ''sk-1''\<rparr>) = (Inr ''ab'', keyed_world)"
    by (simp add: getDocEmbeds_def thermo_libs_def example_libs_def cached_world_def
        keyed_world_def)
  have c: "conversational_chat thermo_libs (main_chain (ask_input ''why'') ''ab'') ''why''
             (chatting_session, keyed_world)
           = (Inr ''temperature 0'',
              chatting_session\<lparr>history := Some [(''hi'', ''echo hi''), (''why'', ''temperature 0'')]\<rparr>,
              keyed_world\<lparr>calls := calls keyed_world @ [ChainCall]\<rparr>)"
    by (simp add: conversational_chat_def thermo_libs_def example_libs_def main_chain_def
        chatting_session_def Let_def)
  show "fst (main thermo_libs (ask_input ''why'') (chatting_session, cached_world))
     = ([User hey, Bot (greeting ''a.pdf''), User ''hi'', Bot ''echo hi'',
         User ''why'', Bot ''temperature 0''], None)"
    using g c
    by (simp add: main_def main_try_def main_settings_def main_init_state_def
        main_greeting_def main_reset_def main_submit_def main_render_def
        ask_input_def idle_input_def chatting_session_def Let_def upt_rec)
qed

section \<open>The two display lists\<close>

lemma render_loop_in_range:
  "(\<And>i. i \<in> set ix \<Longrightarrow> i < length p) \<Longrightarrow>
   render_loop p g ix = (concat (map (\<lambda>i. [User (p ! i), Bot (g ! i)]) ix), None)"
  by (induction ix) simp_all

lemma main_render_paired:
  assumes "past st = Some p" and "generated st = Some g" and "length p = length g"
  shows "main_render st = (transcript p g, None)"
proof (cases "g = []")
  case True
  with assms show ?thesis by (simp add: main_render_def transcript_def)
next
  case False
  have "render_loop p g [0..<length g] = (transcript p g, None)"
    unfolding transcript_def using assms(3) by (intro render_loop_in_range) simp
  with False assms show ?thesis by (simp add: main_render_def)
qed

lemma paired_main_settings: "paired (main_settings inp st) = paired st"
  by (simp add: paired_def main_settings_def split: option.splits)

lemma paired_main_init_state: "paired (main_init_state st) = paired st"
  by (simp add: paired_def main_init_state_def Let_def split: option.splits)

lemma paired_ready: "paired (st\<lparr>ready := r\<rparr>) = paired st"
  by (simp add: paired_def split: option.splits)

lemma paired_main_greeting:
  assumes "paired st"
  shows "\<exists>p g. past (main_greeting name st) = Some p \<and>
               generated (main_greeting name st) = Some g \<and> length p = length g"
  using assms
  by (auto simp: paired_def main_greeting_def Let_def split: option.splits)

lemma paired_main_reset:
  assumes "main_reset name st = Inr st'"
    and "past st = Some p" and "generated st = Some g" and "length p = length g"
  shows "\<exists>p' g'. past st' = Some p' \<and> generated st' = Some g' \<and> length p' = length g'"
  using assms by (auto simp: main_reset_def split: option.splits if_splits)

lemma paired_main_submit:
  assumes "main_submit P chain inp (st, w) = (r, st', w')"
    and "past st = Some p" and "generated st = Some g" and "length p = length g"
  shows "\<exists>p' g'. past st' = Some p' \<and> generated st' = Some g' \<and> length p' = length g'"
  using assms
  by (auto simp: main_submit_def conversational_chat_def Let_def
      split: if_splits option.splits sum.splits prod.splits)

lemma paired_SomeI:
  "past st = Some p \<Longrightarrow> generated st = Some g \<Longrightarrow> length p = length g \<Longrightarrow> paired st"
  by (simp add: paired_def)

lemma main_try_paired:
  fixes P :: "('e, 'i) providers"
  assumes inv: "paired st"
    and run: "main_try P inp name file (st, w) = (out, st', w')"
  shows "paired st' \<and> snd out \<noteq> Some IndexError \<and>
         (snd out = None \<longrightarrow>
            (\<exists>p g. past st' = Some p \<and> generated st' = Some g \<and> length p = length g \<and>
                   fst out = transcript p g))"
proof -
  define st1 where "st1 = main_init_state (main_settings inp st)"
  define st2 where "st2 = st1\<lparr>ready := Some True\<rparr>"
  define st3 where "st3 = main_greeting name st2"
  have p1: "paired st1"
    using inv by (simp add: st1_def paired_main_init_state paired_main_settings)
  then have p2: "paired st2" by (simp add: st2_def paired_ready)
  from paired_main_greeting [OF p2, of name] obtain p3 g3 where
    l3: "past st3 = Some p3" "generated st3 = Some g3" "length p3 = length g3"
    unfolding st3_def by blast
  have rdy: "ready st2 = Some True" by (simp add: st2_def)
  obtain r w1 where g: "getDocEmbeds P file name w = (r, w1)"
    by (cases "getDocEmbeds P file name w")
  show ?thesis
  proof (cases r)
    case (Inl e)
    with run g have "st' = st1" "out = ([], Some e)"
      by (simp_all add: main_try_def st1_def)
    moreover from Inl g have "e \<noteq> IndexError"
      by (auto simp: getDocEmbeds_def storeDocEmbeds_def Let_def
          split: if_splits sum.splits prod.splits option.splits)
    ultimately show ?thesis using p1 by simp
  next
    case (Inr v)
    note run' = run [unfolded main_try_def, simplified, unfolded g Inr, simplified,
        folded st1_def, folded st2_def, simplified rdy, simplified, folded st3_def]
    show ?thesis
    proof (cases "main_reset name st3 :: 'e exn + session_state")
      case (Inl e)
      then have "e = KeyError ''reset_chat''"
        by (auto simp: main_reset_def split: option.splits if_splits)
      moreover from run' Inl have "st' = st3" "out = ([], Some e)" by simp_all
      ultimately show ?thesis using l3 by (simp add: paired_def)
    next
      case (Inr st4)
      from paired_main_reset [OF Inr l3] obtain p4 g4 where
        l4: "past st4 = Some p4" "generated st4 = Some g4" "length p4 = length g4"
        by blast
      obtain r5 st5 w2 where s: "main_submit P (main_chain inp v) inp (st4, w1) = (r5, st5, w2)"
        by (cases "main_submit P (main_chain inp v) inp (st4, w1)")
      from paired_main_submit [OF s l4] obtain p5 g5 where
        l5: "past st5 = Some p5" "generated st5 = Some g5" "length p5 = length g5"
        by blast
      show ?thesis
      proof (cases r5)
        case (Inl e)
        with run' Inr s have "st' = st5" "out = ([], Some e)" by simp_all
        moreover from Inl s have "e \<noteq> IndexError"
          by (auto simp: main_submit_def conversational_chat_def Let_def
              split: if_splits option.splits sum.splits prod.splits)
        ultimately show ?thesis using l5 by (simp add: paired_def)
      next
        case (Inr u)
        with run' \<open>main_reset name st3 = Inr st4\<close> s
        have "st' = st5" "out = main_render st5" by auto
        moreover have "main_render st5 = (transcript p5 g5, None :: 'e exn option)"
          by (rule main_render_paired [OF l5])
        ultimately show ?thesis using l5 by (simp add: paired_def)
      qed
    qed
  qed
qed

text \<open>
  Claim C10. A run of the script keeps the two display lists paired: from a session
  where they are, every run, whatever it does (the greeting, a reset, an ask that
  succeeds or fails, an index that cannot be obtained), ends in a session where they
  are, and never raises \<open>IndexError\<close>. A run on an uploaded file that shows no error
  ends with both lists present and of one length, and has rendered every pair of them.
\<close>

theorem main_keeps_lists_paired:
  fixes P :: "('e, 'i) providers"
  assumes inv: "paired st"
    and run: "main P inp (st, w) = (out, st', w')"
  shows "paired st' \<and> snd out \<noteq> Some IndexError \<and>
         (snd out = None \<and> user_api_key inp \<noteq> [] \<and> uploaded_file inp \<noteq> None \<longrightarrow>
            (\<exists>p g. past st' = Some p \<and> generated st' = Some g \<and> length p = length g \<and>
                   fst out = transcript p g))"
proof (cases "user_api_key inp = [] \<or> uploaded_file inp = None")
  case True
  with run have "st' = st" "snd out = None"
    by (auto simp: main_def Let_def split: if_splits)
  with inv True show ?thesis by auto
next
  case False
  then obtain name body where up: "uploaded_file inp = Some (name, body)" by auto
  with False run
  have "main_try P inp name body (st, w\<lparr>environ_key := Some (user_api_key inp)\<rparr>) = (out, st', w')"
    by (simp add: main_def Let_def)
  from main_try_paired [OF inv this] show ?thesis by blast
qed

theorem main_keeps_lists_paired_witness:
  "paired empty_session \<and>
   main example_libs (ask_input ''why'') (empty_session, empty_world)
     = (([User hey, Bot (greeting ''a.pdf''), User ''why'', Bot ''echo why''], None),
        \<lparr>history = Some [(''why'', ''echo why'')], ready = Some True,
         reset_chat = Some False, generated = Some [greeting ''a.pdf'', ''echo why''],
         past = Some [hey, ''why'']\<rparr>,
        keyed_world\<lparr>calls := calls keyed_world @ [ChainCall]\<rparr>) \<and>
   paired \<lparr>history = Some [(''why'', ''echo why'')], ready = Some True,
         reset_chat = Some False, generated = Some [greeting ''a.pdf'', ''echo why''],
         past = Some [hey, ''why'']\<rparr> \<and>
   transcript [hey, ''why''] [greeting ''a.pdf'', ''echo why'']
     = [User hey, Bot (greeting ''a.pdf''), User ''why'', Bot ''echo why'']"
proof -
  have inv: "paired empty_session"
    by (simp add: paired_def empty_session_def)
  have g: "getDocEmbeds example_libs ''%PDFab'' ''a.pdf''
             (empty_world\<lparr>environ_key := Some ''sk-1''\<rparr>) = (Inr ''ab'', keyed_world)"
    by (simp add: getDocEmbeds_def storeDocEmbeds_def example_libs_def empty_world_def
        cached_world_def keyed_world_def NamedTemporaryFile_def os_remove_def
        FAISS_from_documents_def Let_def)
  have run: "main example_libs (ask_input ''why'') (empty_session, empty_world)
     = (([User hey, Bot (greeting ''a.pdf''), User ''why'', Bot ''echo why''], None),
        \<lparr>history = Some [(''why'', ''echo why'')], ready = Some True,
         reset_chat = Some False, generated = Some [greeting ''a.pdf'', ''echo why''],
         past = Some [hey, ''why'']\<rparr>,
        keyed_world\<lparr>calls := calls keyed_world @ [ChainCall]\<rparr>)"
    using g
    by (simp add: main_def main_try_def main_settings_def main_init_state_def
        main_greeting_def main_reset_def main_submit_def main_render_def main_chain_def
        conversational_chat_def example_libs_def
        ask_input_def idle_input_def empty_session_def Let_def upt_rec)
  have t: "transcript [hey, ''why''] [greeting ''a.pdf'', ''echo why'']
     = [User hey, Bot (greeting ''a.pdf''), User ''why'', Bot ''echo why'']"
    by (simp add: transcript_def upt_rec)
  from main_keeps_lists_paired [OF inv run] have
    "paired \<lparr>history = Some [(''why'', ''echo why'')], ready = Some True,
         reset_chat = Some False, generated = Some [greeting ''a.pdf'', ''echo why''],
         past = Some [hey, ''why'']\<rparr>"
    by blast
  with inv run t show ?thesis by blast
qed

end
